theory Spec2Isabelle
  imports Complex_Main "HOL-Library.Char_ord" "HOL-Library.List_Lexorder"
    "HOL-Library.Product_Lexorder"
begin

section \<open>The transaction table\<close>

text \<open>
  One row of the data frame \<^verbatim>\<open>df\<close> returned by \<^verbatim>\<open>load_data\<close>, with the columns the
  aggregation views read. \<^verbatim>\<open>Customer Mobile No\<close> is a string (\<^verbatim>\<open>astype(str)\<close>); the
  business unit, the reporting period and the bill number are opaque strings.
  \<^verbatim>\<open>MenuGroupDescription\<close> is read as the sheet has it and is never cast: an empty
  cell is a missing value, \<open>None\<close> here. \<^verbatim>\<open>Date\<close> is a timestamp, counted here in
  whole days. An amount is a finite number, written as the rational it denotes;
  how the library adds amounts up (rounding, wrap-around) is not fixed here, see
  \<open>brand_summary\<close>.
\<close>

record transaction =
  Date :: int
  Customer_Mobile_No :: string
  POSDescription :: string
  Bill_Month :: string
  Bill_No :: string
  Gross_Amount :: rat
  Quantity :: rat
  MenuGroupDescription :: "string option"

section \<open>The data-frame operations the script uses\<close>

text \<open>\<^verbatim>\<open>Series.unique()\<close>: the distinct values, in order of first appearance.\<close>

definition unique :: "'a list \<Rightarrow> 'a list" where
  "unique xs = rev (remdups (rev xs))"

text \<open>\<^verbatim>\<open>Series.nunique()\<close>: the number of distinct values.\<close>

definition nunique :: "'a list \<Rightarrow> nat" where
  "nunique xs = length (unique xs)"

text \<open>
  \<^verbatim>\<open>groupby(key)\<close>: one group per distinct key, the keys in ascending order, each
  group holding the rows of that key in table order.
\<close>

definition group_keys :: "('k::linorder) list \<Rightarrow> 'k list" where
  "group_keys ks = sort (remdups ks)"

definition groupby :: "('a \<Rightarrow> 'k::linorder) \<Rightarrow> 'a list \<Rightarrow> ('k \<times> 'a list) list" where
  "groupby key rows =
     map (\<lambda>k. (k, filter (\<lambda>r. key r = k) rows)) (group_keys (map key rows))"

text \<open>
  Grouping drops the rows whose key is missing (\<^verbatim>\<open>dropna=True\<close>, the default): a
  column that can hold missing values gives no group for them.
\<close>

definition groupby_dropna ::
  "('a \<Rightarrow> ('k::linorder) option) \<Rightarrow> 'a list \<Rightarrow> ('k \<times> 'a list) list" where
  "groupby_dropna key rows =
     map (\<lambda>k. (k, filter (\<lambda>r. key r = Some k) rows)) (group_keys (List.map_filter key rows))"

text \<open>
  \<^verbatim>\<open>Series.value_counts()\<close>: each distinct value with the number of rows holding
  it, the largest count first.
\<close>

definition value_counts :: "'a list \<Rightarrow> ('a \<times> nat) list" where
  "value_counts xs =
     sort_key (\<lambda>(v, c). - int c) (map (\<lambda>v. (v, count_list xs v)) (unique xs))"

section \<open>Sidebar filters\<close>

text \<open>
  \<^verbatim>\<open>df[(df['POSDescription'].isin(centre)) & (df['Bill Month'].isin(month))]\<close>
\<close>

definition filtered_df :: "string list \<Rightarrow> string list \<Rightarrow> transaction list \<Rightarrow> transaction list" where
  "filtered_df centre month df =
     filter (\<lambda>r. POSDescription r \<in> set centre \<and> Bill_Month r \<in> set month) df"

text \<open>The default of each multiselect: every distinct value of its column.\<close>

definition default_centre :: "transaction list \<Rightarrow> string list" where
  "default_centre df = unique (map POSDescription df)"

definition default_month :: "transaction list \<Rightarrow> string list" where
  "default_month df = unique (map Bill_Month df)"

section \<open>Guest segmentation\<close>

text \<open>
  A row of \<^verbatim>\<open>guest_metrics\<close> as \<^verbatim>\<open>segment\<close> receives it: the customer, the number of
  distinct bills and the summed gross amount.
\<close>

record guest_metric =
  gm_Customer :: string
  visits :: nat
  spend :: rat

definition segment :: "guest_metric \<Rightarrow> string" where
  "segment row =
     (if spend row > 10000 \<or> visits row \<ge> 6 then ''VIP''
      else if visits row \<ge> 3 then ''Regular''
      else ''Occasional'')"

section \<open>KPI metrics\<close>

text \<open>
  The quotient of two integer counts is a binary float: a zero denominator does not
  raise, it gives not-a-number for \<open>0 / 0\<close> and infinity otherwise.
\<close>

datatype float64 = NaN | PosInf | Val rat

definition true_divide :: "nat \<Rightarrow> nat \<Rightarrow> float64" where
  "true_divide a b =
     (if b = 0 then (if a = 0 then NaN else PosInf) else Val (of_nat a / of_nat b))"

fun times100 :: "float64 \<Rightarrow> float64" where
  "times100 NaN = NaN"
| "times100 PosInf = PosInf"
| "times100 (Val q) = Val (q * 100)"

definition unique_guests :: "transaction list \<Rightarrow> nat" where
  "unique_guests rows = nunique (map Customer_Mobile_No rows)"

definition repeat_counts :: "transaction list \<Rightarrow> (string \<times> nat) list" where
  "repeat_counts rows = value_counts (map Customer_Mobile_No rows)"

text \<open>
  \<^verbatim>\<open>(repeat_counts[repeat_counts > 1].count() / unique_guests) * 100\<close>
\<close>

definition repeat_pct :: "transaction list \<Rightarrow> float64" where
  "repeat_pct rows =
     times100 (true_divide (length (filter (\<lambda>(v, c). c > 1) (repeat_counts rows)))
                           (unique_guests rows))"

text \<open>
  The percentage as the specification words it, for comparison with \<open>repeat_pct\<close>:
  the customers with more than one distinct bill number, over the distinct customers.
\<close>

definition distinct_bills :: "transaction list \<Rightarrow> string \<Rightarrow> nat" where
  "distinct_bills rows c =
     nunique (map Bill_No (filter (\<lambda>r. Customer_Mobile_No r = c) rows))"

definition spec_repeat_pct :: "transaction list \<Rightarrow> float64" where
  "spec_repeat_pct rows =
     times100 (true_divide
       (length (filter (\<lambda>c. distinct_bills rows c > 1) (unique (map Customer_Mobile_No rows))))
       (unique_guests rows))"

section \<open>Retention\<close>

text \<open>
  A timestamp is a day number, or \<open>None\<close> for not-a-time, which is what the maximum
  of an empty column is. Subtracting a time delta from not-a-time gives not-a-time,
  and every comparison with it is false.
\<close>

type_synonym timestamp = "int option"

fun series_max :: "int list \<Rightarrow> timestamp" where
  "series_max [] = None"
| "series_max (x # xs) = Some (fold max xs x)"

definition minus_days :: "timestamp \<Rightarrow> int \<Rightarrow> timestamp" where
  "minus_days t n = map_option (\<lambda>d. d - n) t"

fun ts_less :: "timestamp \<Rightarrow> timestamp \<Rightarrow> bool" where
  "ts_less (Some a) (Some b) = (a < b)"
| "ts_less _ _ = False"

fun ts_ge :: "timestamp \<Rightarrow> timestamp \<Rightarrow> bool" where
  "ts_ge (Some a) (Some b) = (a \<ge> b)"
| "ts_ge _ _ = False"

definition last_visit :: "transaction list \<Rightarrow> (string \<times> timestamp) list" where
  "last_visit rows =
     map (\<lambda>(c, g). (c, series_max (map Date g))) (groupby Customer_Mobile_No rows)"

definition inactive :: "transaction list \<Rightarrow> (string \<times> timestamp) list" where
  "inactive rows =
     filter (\<lambda>(c, d). ts_less d (minus_days (series_max (map Date rows)) 30)) (last_visit rows)"

definition recent :: "transaction list \<Rightarrow> (string \<times> timestamp) list" where
  "recent rows =
     filter (\<lambda>(c, d). ts_ge d (minus_days (series_max (map Date rows)) 7)) (last_visit rows)"

section \<open>Brand insights and guest brand preference\<close>

record brand_row =
  bs_MenuGroup :: string
  Unique_Guests :: nat
  Quantity_Sold :: rat
  Revenue :: rat

text \<open>
  \<^verbatim>\<open>sort_values(by=..., ascending=False)\<close>: the rows by descending key. Rows of equal
  key stay in their order here; the claims below do not depend on that order.
\<close>

definition sort_values_desc :: "('a \<Rightarrow> 'v::{linorder, uminus}) \<Rightarrow> 'a list \<Rightarrow> 'a list" where
  "sort_values_desc by_col xs = sort_key (\<lambda>x. - by_col x) xs"

text \<open>
  \<^verbatim>\<open>brand_summary\<close>: the rows that have a brand, grouped by it, one line per brand,
  by descending revenue. The \<^verbatim>\<open>'sum'\<close> aggregation is the library's arithmetic on
  the column's number type; it is the parameter \<open>sum_agg\<close>, the finite number the
  library returns for the amounts of a group, and nothing is assumed about it.
\<close>

definition brand_summary :: "(rat list \<Rightarrow> rat) \<Rightarrow> transaction list \<Rightarrow> brand_row list" where
  "brand_summary sum_agg rows =
     sort_values_desc Revenue
       (map (\<lambda>(b, g). \<lparr>bs_MenuGroup = b,
                        Unique_Guests = nunique (map Customer_Mobile_No g),
                        Quantity_Sold = sum_agg (map Quantity g),
                        Revenue = sum_agg (map Gross_Amount g)\<rparr>)
          (groupby_dropna MenuGroupDescription rows))"

datatype error = IndexError

text \<open>
  \<^verbatim>\<open>iloc[i]\<close>: positional access, a negative position counting from the end; a
  position outside the frame raises.
\<close>

definition iloc :: "'a list \<Rightarrow> int \<Rightarrow> error + 'a" where
  "iloc frame pos =
     (if 0 \<le> pos \<and> pos < int (length frame) then Inr (frame ! nat pos)
      else if pos < 0 \<and> - pos \<le> int (length frame)
        then Inr (frame ! nat (int (length frame) + pos))
      else Inl IndexError)"

definition top_brand :: "brand_row list \<Rightarrow> error + string" where
  "top_brand bs = (case iloc bs 0 of Inl e \<Rightarrow> Inl e | Inr b \<Rightarrow> Inr (bs_MenuGroup b))"

definition low_brand :: "brand_row list \<Rightarrow> error + string" where
  "low_brand bs = (case iloc bs (- 1) of Inl e \<Rightarrow> Inl e | Inr b \<Rightarrow> Inr (bs_MenuGroup b))"

text \<open>
  \<^verbatim>\<open>guest_pref\<close>: the number of rows of each (customer, brand) pair, rows without
  a brand dropped, and the 20 pairs with the most orders that are displayed.
\<close>

definition guest_pref :: "transaction list \<Rightarrow> ((string \<times> string) \<times> nat) list" where
  "guest_pref rows =
     map (\<lambda>(k, g). (k, length g))
       (groupby_dropna
          (\<lambda>r. map_option (Pair (Customer_Mobile_No r)) (MenuGroupDescription r)) rows)"

definition guest_pref_shown :: "transaction list \<Rightarrow> ((string \<times> string) \<times> nat) list" where
  "guest_pref_shown rows = take 20 (sort_values_desc (\<lambda>(k, n). int n) (guest_pref rows))"

text \<open>
  The script from the brand section to its end, in statement order: the brand table,
  the two banners, then the guest brand preference table. Nothing catches an
  exception, so the first one ends the run and what follows is not produced.
\<close>

record brand_and_pref_views =
  shown_brand_summary :: "brand_row list"
  most_preferred :: string
  low_performing :: string
  shown_guest_pref :: "((string \<times> string) \<times> nat) list"

definition brand_section_onwards ::
  "(rat list \<Rightarrow> rat) \<Rightarrow> transaction list \<Rightarrow> error + brand_and_pref_views" where
  "brand_section_onwards sum_agg rows =
     (let bs = brand_summary sum_agg rows in
      case top_brand bs of Inl e \<Rightarrow> Inl e
      | Inr first_brand \<Rightarrow>
        (case low_brand bs of Inl e \<Rightarrow> Inl e
         | Inr last_brand \<Rightarrow>
           Inr \<lparr>shown_brand_summary = bs, most_preferred = first_brand,
                low_performing = last_brand,
                shown_guest_pref = guest_pref_shown rows\<rparr>))"

section \<open>Example rows\<close>

text \<open>
  A row for the concrete tables of the examples below: date, customer, bill number,
  brand and gross amount; the other columns are the same in every example row.
\<close>

definition txn :: "int \<Rightarrow> string \<Rightarrow> string \<Rightarrow> string \<Rightarrow> rat \<Rightarrow> transaction" where
  "txn d c bill brand gross =
     \<lparr>Date = d, Customer_Mobile_No = c, POSDescription = ''Taproom'', Bill_Month = ''Mar'',
      Bill_No = bill, Gross_Amount = gross, Quantity = 1,
      MenuGroupDescription = Some brand\<rparr>"

text \<open>The same row with an empty brand cell.\<close>

definition txn_no_brand :: "int \<Rightarrow> string \<Rightarrow> string \<Rightarrow> rat \<Rightarrow> transaction" where
  "txn_no_brand d c bill gross =
     \<lparr>Date = d, Customer_Mobile_No = c, POSDescription = ''Taproom'', Bill_Month = ''Mar'',
      Bill_No = bill, Gross_Amount = gross, Quantity = 1, MenuGroupDescription = None\<rparr>"

section \<open>Properties\<close>

lemma set_unique [simp]: "set (unique xs) = set xs"
  by (simp add: unique_def)

lemma distinct_unique [simp]: "distinct (unique xs)"
  by (simp add: unique_def)

subsection \<open>Grouping\<close>

lemma set_group_keys [simp]: "set (group_keys ks) = set ks"
  by (simp add: group_keys_def)

lemma distinct_group_keys [simp]: "distinct (group_keys ks)"
  by (simp add: group_keys_def)

subsection \<open>Retention windows\<close>

lemma series_max_Max: "xs \<noteq> [] \<Longrightarrow> series_max xs = Some (Max (set xs))"
  using Max.set_eq_fold [of "hd xs" "tl xs"] by (cases xs) simp_all

lemma last_visit_iff:
  "(c, d) \<in> set (last_visit rows) \<longleftrightarrow>
     c \<in> Customer_Mobile_No ` set rows
     \<and> d = Some (Max (Date ` {r \<in> set rows. Customer_Mobile_No r = c}))"
proof -
  have grp: "series_max (map Date (filter (\<lambda>r. Customer_Mobile_No r = k) rows))
             = Some (Max (Date ` {r \<in> set rows. Customer_Mobile_No r = k}))"
    if "k \<in> Customer_Mobile_No ` set rows" for k
  proof -
    from that have "map Date (filter (\<lambda>r. Customer_Mobile_No r = k) rows) \<noteq> []"
      by (auto simp: filter_empty_conv)
    then show ?thesis
      by (simp add: series_max_Max)
  qed
  show ?thesis
    by (auto simp: last_visit_def groupby_def grp)
qed

lemma global_max: "rows \<noteq> [] \<Longrightarrow> series_max (map Date rows) = Some (Max (Date ` set rows))"
  by (simp add: series_max_Max)

lemma inactive_iff:
  "c \<in> fst ` set (inactive rows) \<longleftrightarrow>
     c \<in> Customer_Mobile_No ` set rows
     \<and> Max (Date ` {r \<in> set rows. Customer_Mobile_No r = c}) < Max (Date ` set rows) - 30"
proof (cases "rows = []")
  case True
  then show ?thesis by (simp add: inactive_def last_visit_def groupby_def group_keys_def)
next
  case False
  then show ?thesis
    by (force simp: inactive_def last_visit_iff global_max minus_days_def image_iff)
qed

lemma recent_iff:
  "c \<in> fst ` set (recent rows) \<longleftrightarrow>
     c \<in> Customer_Mobile_No ` set rows
     \<and> Max (Date ` {r \<in> set rows. Customer_Mobile_No r = c}) \<ge> Max (Date ` set rows) - 7"
proof (cases "rows = []")
  case True
  then show ?thesis by (simp add: recent_def last_visit_def groupby_def group_keys_def)
next
  case False
  then show ?thesis
    by (force simp: recent_def last_visit_iff global_max minus_days_def image_iff)
qed

lemma customer_last_le_global:
  assumes "c \<in> Customer_Mobile_No ` set rows"
  shows "Max (Date ` {r \<in> set rows. Customer_Mobile_No r = c}) \<le> Max (Date ` set rows)"
proof (rule Max_mono)
  show "Date ` {r \<in> set rows. Customer_Mobile_No r = c} \<subseteq> Date ` set rows" by auto
  show "Date ` {r \<in> set rows. Customer_Mobile_No r = c} \<noteq> {}" using assms by auto
  show "finite (Date ` set rows)" by simp
qed

text \<open>
  With days counted from 2024-01-01: the table's latest date is 2024-03-31 (day 90),
  customer B was last seen on 2024-02-20 (day 50) and is inactive, customer C on
  2024-03-28 (day 87) and is recent, as is customer A, seen on the latest date.
\<close>

lemma retention_example:
  "inactive [txn 50 ''B'' ''b1'' ''Lager'' 100, txn 87 ''C'' ''b2'' ''Lager'' 100,
             txn 90 ''A'' ''b3'' ''Lager'' 100] = [(''B'', Some 50)]
   \<and> recent [txn 50 ''B'' ''b1'' ''Lager'' 100, txn 87 ''C'' ''b2'' ''Lager'' 100,
             txn 90 ''A'' ''b3'' ''Lager'' 100] = [(''A'', Some 90), (''C'', Some 87)]"
  by code_simp

subsection \<open>Repeat guests\<close>

lemma count_list_map_filter:
  "count_list (map f xs) c = length (filter (\<lambda>r. f r = c) xs)"
  by (induction xs) auto

lemma unique_guests_card: "unique_guests rows = card (Customer_Mobile_No ` set rows)"
proof -
  have "card (set (unique (map Customer_Mobile_No rows))) = length (unique (map Customer_Mobile_No rows))"
    by (rule distinct_card) simp
  then show ?thesis by (simp add: unique_guests_def nunique_def)
qed

lemma repeat_numerator_rows:
  "length (filter (\<lambda>(v, c). c > 1) (repeat_counts rows))
   = card {c \<in> Customer_Mobile_No ` set rows.
            length (filter (\<lambda>r. Customer_Mobile_No r = c) rows) > 1}"
proof -
  let ?cs = "unique (map Customer_Mobile_No rows)"
  let ?many = "\<lambda>c. length (filter (\<lambda>r. Customer_Mobile_No r = c) rows) > 1"
  have "length (filter (\<lambda>(v, c). c > 1) (repeat_counts rows)) = length (filter ?many ?cs)"
    by (simp add: repeat_counts_def value_counts_def filter_sort filter_map comp_def
        count_list_map_filter)
  also have "\<dots> = card (set (filter ?many ?cs))"
    by (rule distinct_card [symmetric]) simp
  also have "set (filter ?many ?cs) = {c \<in> Customer_Mobile_No ` set rows. ?many c}"
    by auto
  finally show ?thesis .
qed

lemma unique_guests_zero: "unique_guests rows = 0 \<longleftrightarrow> rows = []"
  by (simp add: unique_guests_card)

subsection \<open>Brand table and banners\<close>

lemma sort_values_desc_sorted:
  fixes by_col :: "'a \<Rightarrow> rat"
  shows "sorted_wrt (\<lambda>a b. by_col a \<ge> by_col b) (sort_values_desc by_col xs)"
  using sorted_sort_key [of "\<lambda>x. - by_col x" xs]
  by (simp add: sort_values_desc_def sorted_map)

lemma length_sort_values_desc [simp]: "length (sort_values_desc by_col xs) = length xs"
  by (simp add: sort_values_desc_def)

lemma groupby_dropna_empty_iff:
  "groupby_dropna key rows = [] \<longleftrightarrow> (\<forall>r \<in> set rows. key r = None)"
proof -
  have "group_keys (List.map_filter key rows) = []
        \<longleftrightarrow> set (group_keys (List.map_filter key rows)) = {}"
    by (simp only: set_empty)
  also have "\<dots> \<longleftrightarrow> (\<forall>r \<in> set rows. key r = None)"
    by (auto simp: List.map_filter_def)
  finally show ?thesis by (simp add: groupby_dropna_def)
qed

lemma brand_summary_empty_iff:
  "brand_summary sum_agg rows = [] \<longleftrightarrow> (\<forall>r \<in> set rows. MenuGroupDescription r = None)"
proof -
  have "length (brand_summary sum_agg rows)
        = length (groupby_dropna MenuGroupDescription rows)"
    by (simp add: brand_summary_def)
  then show ?thesis
    by (metis groupby_dropna_empty_iff length_0_conv)
qed

lemma brand_summary_sorted:
  "sorted_wrt (\<lambda>a b. Revenue a \<ge> Revenue b) (brand_summary sum_agg rows)"
  by (simp add: brand_summary_def sort_values_desc_sorted)

lemma sorted_desc_hd:
  "sorted_wrt (\<lambda>a b. (f a :: rat) \<ge> f b) xs \<Longrightarrow> b \<in> set xs \<Longrightarrow> f b \<le> f (hd xs)"
  by (cases xs) auto

lemma iloc_first: "xs \<noteq> [] \<Longrightarrow> iloc xs 0 = Inr (hd xs)"
  by (simp add: iloc_def hd_conv_nth)

lemma iloc_last: "xs \<noteq> [] \<Longrightarrow> iloc xs (- 1) = Inr (last xs)"
proof -
  assume ne: "xs \<noteq> []"
  then have "nat (int (length xs) + - 1) = length xs - 1" "1 \<le> int (length xs)"
    by (cases xs; simp)+
  with ne show ?thesis
    by (simp add: iloc_def last_conv_nth)
qed

lemma iloc_empty: "iloc [] i = Inl IndexError"
  by (simp add: iloc_def)

text \<open>
  A run on a table with two brands and one row without a brand, with whole amounts
  (which every number type adds exactly): the row without a brand is in no group.
\<close>

lemma brand_section_example:
  "brand_section_onwards sum_list
     [txn 1 ''A'' ''b1'' ''Lager'' 100, txn 1 ''A'' ''b1'' ''Stout'' 250,
      txn_no_brand 2 ''B'' ''b2'' 400] =
     Inr \<lparr>shown_brand_summary =
            [\<lparr>bs_MenuGroup = ''Stout'', Unique_Guests = 1, Quantity_Sold = 1, Revenue = 250\<rparr>,
             \<lparr>bs_MenuGroup = ''Lager'', Unique_Guests = 1, Quantity_Sold = 1, Revenue = 100\<rparr>],
          most_preferred = ''Stout'', low_performing = ''Lager'',
          shown_guest_pref = [((''A'', ''Lager''), 1), ((''A'', ''Stout''), 1)]\<rparr>"
  by code_simp

subsection \<open>The claims\<close>

text \<open>
  Claim C1. The repeat-guest percentage is the number of customers with more than
  one distinct bill number over the number of distinct customers, times 100. The
  script counts a customer's rows instead (\<open>repeat_numerator_rows\<close>): a customer
  with two line items on one bill is counted as a repeat guest, so on the table below
  the script gives 100 where the claim's percentage is 0.
\<close>

theorem repeat_pct_counts_line_items:
  "repeat_pct [txn 1 ''A'' ''b1'' ''Lager'' 100, txn 1 ''A'' ''b1'' ''Stout'' 150] = Val 100
   \<and> spec_repeat_pct [txn 1 ''A'' ''b1'' ''Lager'' 100, txn 1 ''A'' ''b1'' ''Stout'' 150] = Val 0"
  by code_simp

text \<open>
  Claim C2. With zero distinct customers the percentage is a defined fallback value,
  reached through a guard. The script has no guard: on the empty table the quotient
  is \<open>0 / 0\<close>, not-a-number, which is not the value 0.
\<close>

theorem repeat_pct_empty_not_a_number:
  "unique_guests [] = 0 \<and> repeat_pct [] = NaN \<and> repeat_pct [] \<noteq> Val 0"
  by code_simp

text \<open>
  Claim C2, amended. With zero distinct customers the script divides all the same,
  and the percentage is not-a-number; no error is raised.
\<close>

theorem repeat_pct_zero_guests:
  "unique_guests rows = 0 \<Longrightarrow> repeat_pct rows = NaN"
  by (simp add: unique_guests_zero repeat_pct_def repeat_counts_def value_counts_def
      unique_def true_divide_def unique_guests_def nunique_def)

theorem repeat_pct_zero_guests_witness:
  "unique_guests [] = 0 \<and> repeat_pct [] = NaN"
  using repeat_pct_zero_guests [of "[]"] by (simp add: unique_guests_zero)

text \<open>
  Claim C3. For every Guest Summary row the segment is VIP when the spend exceeds
  10000 or there are at least 6 visits, otherwise Regular when there are at least 3
  visits, otherwise Occasional. The VIP test comes first: 6 visits with a spend of
  5000, or of 8000, is VIP although the Regular test holds too and the spend is
  below 10000.
\<close>

theorem segment_rule:
  "segment row =
     (if spend row > 10000 \<or> visits row \<ge> 6 then ''VIP''
      else if visits row \<ge> 3 then ''Regular'' else ''Occasional'')
   \<and> segment \<lparr>gm_Customer = c, visits = 6, spend = 5000\<rparr> = ''VIP''
   \<and> segment \<lparr>gm_Customer = ''9990011122'', visits = 6, spend = 8000\<rparr> = ''VIP''"
  by (simp add: segment_def)

text \<open>
  Claim C5. A customer is in the inactive view exactly when they are a customer of
  the filtered table whose latest date is strictly earlier than the table's latest
  date minus 30 days, and in the recent view exactly when their latest date is on or
  after the table's latest date minus 7 days. No customer is in both views.
\<close>

theorem retention_views:
  "(c \<in> fst ` set (inactive rows) \<longleftrightarrow>
      c \<in> Customer_Mobile_No ` set rows
      \<and> Max (Date ` {r \<in> set rows. Customer_Mobile_No r = c}) < Max (Date ` set rows) - 30)
   \<and> (c \<in> fst ` set (recent rows) \<longleftrightarrow>
      c \<in> Customer_Mobile_No ` set rows
      \<and> Max (Date ` {r \<in> set rows. Customer_Mobile_No r = c}) \<ge> Max (Date ` set rows) - 7)
   \<and> \<not> (c \<in> fst ` set (inactive rows) \<and> c \<in> fst ` set (recent rows))"
  unfolding inactive_iff recent_iff by auto

text \<open>
  Claim C6. With an empty selection in the business-unit filter, or in the
  reporting-period filter, the filtered table has no rows.
\<close>

theorem filtered_df_empty_selection:
  "filtered_df [] month df = [] \<and> filtered_df centre [] df = []"
  by (simp add: filtered_df_def)

text \<open>
  Claim C7. With the default selections (all distinct business units and all
  distinct reporting periods of the table) the filter keeps every row, so the row
  count is the one of the unfiltered table.
\<close>

theorem filtered_df_default_selection:
  "filtered_df (default_centre df) (default_month df) df = df
   \<and> length (filtered_df (default_centre df) (default_month df) df) = length df"
  by (simp add: filtered_df_def default_centre_def default_month_def)

text \<open>
  Claim C8. For every non-empty filtered table the brand table is in descending
  order of revenue and the banners name the brand of its first and of its last row.
  A non-empty table whose rows all lack a brand has an empty brand table, and
  reading its first or last row for the banners raises.
\<close>

theorem brand_banners_without_labels:
  "[txn_no_brand 1 ''A'' ''b1'' 100] \<noteq> []
   \<and> brand_summary sum_list [txn_no_brand 1 ''A'' ''b1'' 100] = []
   \<and> top_brand (brand_summary sum_list [txn_no_brand 1 ''A'' ''b1'' 100]) = Inl IndexError
   \<and> low_brand (brand_summary sum_list [txn_no_brand 1 ''A'' ''b1'' 100]) = Inl IndexError"
  by code_simp

text \<open>
  Claim C8, amended. For every filtered table with at least one row that has a
  brand, the brand table is not empty and is in descending order of revenue, so no
  row's revenue exceeds the first row's; the most-preferred banner names the brand
  of the first row and the low-performing banner the brand of the last row.
\<close>

theorem brand_summary_sorted_banners:
  assumes "\<exists>r \<in> set rows. MenuGroupDescription r \<noteq> None"
  shows "brand_summary sum_agg rows \<noteq> []
     \<and> sorted_wrt (\<lambda>a b. Revenue a \<ge> Revenue b) (brand_summary sum_agg rows)
     \<and> (\<forall>b \<in> set (brand_summary sum_agg rows).
           Revenue b \<le> Revenue (hd (brand_summary sum_agg rows)))
     \<and> top_brand (brand_summary sum_agg rows)
         = Inr (bs_MenuGroup (hd (brand_summary sum_agg rows)))
     \<and> low_brand (brand_summary sum_agg rows)
         = Inr (bs_MenuGroup (last (brand_summary sum_agg rows)))"
proof -
  from assms have ne: "brand_summary sum_agg rows \<noteq> []"
    by (simp add: brand_summary_empty_iff)
  have "\<forall>b \<in> set (brand_summary sum_agg rows).
          Revenue b \<le> Revenue (hd (brand_summary sum_agg rows))"
    using sorted_desc_hd [OF brand_summary_sorted] by blast
  with ne show ?thesis
    by (simp add: brand_summary_sorted top_brand_def low_brand_def iloc_first iloc_last)
qed

theorem brand_summary_sorted_banners_witness:
  "(\<exists>r \<in> set [txn 1 ''A'' ''b1'' ''Lager'' 100, txn 1 ''A'' ''b1'' ''Stout'' 250,
               txn_no_brand 2 ''B'' ''b2'' 400]. MenuGroupDescription r \<noteq> None)
   \<and> sorted_wrt (\<lambda>a b. Revenue a \<ge> Revenue b)
       (brand_summary sum_list [txn 1 ''A'' ''b1'' ''Lager'' 100, txn 1 ''A'' ''b1'' ''Stout'' 250,
                                txn_no_brand 2 ''B'' ''b2'' 400])
   \<and> map bs_MenuGroup
       (brand_summary sum_list [txn 1 ''A'' ''b1'' ''Lager'' 100, txn 1 ''A'' ''b1'' ''Stout'' 250,
                                txn_no_brand 2 ''B'' ''b2'' 400])
       = [''Stout'', ''Lager'']
   \<and> top_brand
       (brand_summary sum_list [txn 1 ''A'' ''b1'' ''Lager'' 100, txn 1 ''A'' ''b1'' ''Stout'' 250,
                                txn_no_brand 2 ''B'' ''b2'' 400])
       = Inr ''Stout''
   \<and> low_brand
       (brand_summary sum_list [txn 1 ''A'' ''b1'' ''Lager'' 100, txn 1 ''A'' ''b1'' ''Stout'' 250,
                                txn_no_brand 2 ''B'' ''b2'' 400])
       = Inr ''Lager''"
proof -
  let ?rows = "[txn 1 ''A'' ''b1'' ''Lager'' 100, txn 1 ''A'' ''b1'' ''Stout'' 250,
                txn_no_brand 2 ''B'' ''b2'' 400]"
  have labelled: "\<exists>r \<in> set ?rows. MenuGroupDescription r \<noteq> None"
    by (simp add: txn_def)
  have names: "map bs_MenuGroup (brand_summary sum_list ?rows) = [''Stout'', ''Lager'']"
    by code_simp
  have top: "top_brand (brand_summary sum_list ?rows) = Inr ''Stout''"
    by code_simp
  have low: "low_brand (brand_summary sum_list ?rows) = Inr ''Lager''"
    by code_simp
  from brand_summary_sorted_banners [OF labelled, of sum_list] have
    "sorted_wrt (\<lambda>a b. Revenue a \<ge> Revenue b) (brand_summary sum_list ?rows)"
    by blast
  with labelled names top low show ?thesis
    by blast
qed

text \<open>
  Claim C9. With an empty filtered table the banners do not raise an error that
  keeps the remaining views from being produced. They do: the brand table has no
  rows, reading its first row raises, and the guest brand preference view that
  follows is not produced.
\<close>

theorem brand_section_onwards_empty_raises:
  "brand_section_onwards sum_list [] = Inl IndexError"
  by code_simp

text \<open>
  Claim C9, amended. When the filtered table is empty the brand table has no rows,
  and whenever the brand table has no rows, computing the banners raises an index
  error that nothing catches: the run ends with it, and the guest brand preference
  view that follows the banners is not produced.
\<close>

theorem banner_error_ends_run:
  "brand_summary sum_agg [] = []
   \<and> (brand_summary sum_agg rows = []
        \<longrightarrow> brand_section_onwards sum_agg rows = Inl IndexError)"
  by (simp add: brand_summary_empty_iff [of sum_agg "[]"] brand_section_onwards_def
      top_brand_def iloc_empty)

theorem banner_error_ends_run_witness:
  "brand_summary sum_list [] = [] \<and> brand_section_onwards sum_list [] = Inl IndexError"
  using banner_error_ends_run [of sum_list "[]"] by simp



end
